theory Spec2Isabelle
  imports Main "HOL-Library.Word" "HOL-Library.Char_ord" "HOL-Library.List_Lexorder"
begin

unbundle bit_operations_syntax

section \<open>Python values and exceptions\<close>

text \<open>
  The exception classes that the storage and database services raise, catch or test with
  \<^verbatim>\<open>isinstance\<close>.  \<open>CancelledError\<close> derives from \<open>BaseException\<close> only, every other
  class from \<open>Exception\<close>.
\<close>

datatype exc_class =
    BaseException | Exception | CancelledError
  | OSError | FileNotFoundError | FileExistsError | PermissionError
  | NotADirectoryError | IsADirectoryError
  | ValueError | TypeError
  | SSHException
  | BotoCoreError | ClientError
  | SQLAlchemyError | ArgumentError | DBAPIError | OperationalError

text \<open>The direct base class; \<open>BaseException\<close> is the root.\<close>

fun base_class :: "exc_class \<Rightarrow> exc_class option" where
  "base_class BaseException = None"
| "base_class Exception = Some BaseException"
| "base_class CancelledError = Some BaseException"
| "base_class OSError = Some Exception"
| "base_class FileNotFoundError = Some OSError"
| "base_class FileExistsError = Some OSError"
| "base_class PermissionError = Some OSError"
| "base_class NotADirectoryError = Some OSError"
| "base_class IsADirectoryError = Some OSError"
| "base_class ValueError = Some Exception"
| "base_class TypeError = Some Exception"
| "base_class SSHException = Some Exception"
| "base_class BotoCoreError = Some Exception"
| "base_class ClientError = Some Exception"
| "base_class SQLAlchemyError = Some Exception"
| "base_class ArgumentError = Some SQLAlchemyError"
| "base_class DBAPIError = Some SQLAlchemyError"
| "base_class OperationalError = Some DBAPIError"

text \<open>The method resolution chain of a class, itself first (every chain is at most four long).\<close>

definition ancestors :: "exc_class \<Rightarrow> exc_class list" where
  "ancestors c =
     (case base_class c of None \<Rightarrow> [c]
      | Some b1 \<Rightarrow> (case base_class b1 of None \<Rightarrow> [c, b1]
         | Some b2 \<Rightarrow> (case base_class b2 of None \<Rightarrow> [c, b1, b2]
            | Some b3 \<Rightarrow> (case base_class b3 of None \<Rightarrow> [c, b1, b2, b3]
               | Some b4 \<Rightarrow> [c, b1, b2, b3, b4]))))"

definition subclass_of :: "exc_class \<Rightarrow> exc_class \<Rightarrow> bool" where
  "subclass_of c d = (d \<in> set (ancestors c))"

text \<open>
  A raised exception: an instance of a class with its message (\<^verbatim>\<open>str(exception)\<close>), or
  tenacity's \<open>RetryError\<close> wrapping the last attempt's exception.
\<close>

datatype exn = Raised exc_class string | RetryError exn

fun isinstance :: "exn \<Rightarrow> exc_class \<Rightarrow> bool" where
  "isinstance (Raised c m) d = subclass_of c d"
| "isinstance (RetryError e) d = (d = Exception \<or> d = BaseException)"

fun str_of_exn :: "exn \<Rightarrow> string" where
  "str_of_exn (Raised c m) = m"
| "str_of_exn (RetryError e) = ''RetryError''"

text \<open>
  The values an \<^verbatim>\<open>if\<close> can test and a coroutine function can hand back: \<open>None\<close>, a
  \<open>bool\<close>, or the coroutine object that calling an \<^verbatim>\<open>async def\<close> without \<^verbatim>\<open>await\<close>
  produces.  A coroutine object defines neither \<^verbatim>\<open>__bool__\<close> nor \<^verbatim>\<open>__len__\<close>, so it is
  true in a condition.
\<close>

datatype pyval = PyNone | PyBool bool | Coroutine

fun truthy :: "pyval \<Rightarrow> bool" where
  "truthy PyNone = False"
| "truthy (PyBool b) = b"
| "truthy Coroutine = True"

type_synonym byte = "8 word"
type_synonym u32 = "32 word"

section \<open>Content addresser\<close>

subsection \<open>\<^verbatim>\<open>hashlib.md5\<close> (RFC 1321)\<close>

definition md5_S :: "nat list" where
  "md5_S = [7, 12, 17, 22, 7, 12, 17, 22, 7, 12, 17, 22, 7, 12, 17, 22,
            5, 9, 14, 20, 5, 9, 14, 20, 5, 9, 14, 20, 5, 9, 14, 20,
            4, 11, 16, 23, 4, 11, 16, 23, 4, 11, 16, 23, 4, 11, 16, 23,
            6, 10, 15, 21, 6, 10, 15, 21, 6, 10, 15, 21, 6, 10, 15, 21]"

definition md5_K :: "u32 list" where
  "md5_K = [
   0xd76aa478, 0xe8c7b756, 0x242070db, 0xc1bdceee,
   0xf57c0faf, 0x4787c62a, 0xa8304613, 0xfd469501,
   0x698098d8, 0x8b44f7af, 0xffff5bb1, 0x895cd7be,
   0x6b901122, 0xfd987193, 0xa679438e, 0x49b40821,
   0xf61e2562, 0xc040b340, 0x265e5a51, 0xe9b6c7aa,
   0xd62f105d, 0x02441453, 0xd8a1e681, 0xe7d3fbc8,
   0x21e1cde6, 0xc33707d6, 0xf4d50d87, 0x455a14ed,
   0xa9e3e905, 0xfcefa3f8, 0x676f02d9, 0x8d2a4c8a,
   0xfffa3942, 0x8771f681, 0x6d9d6122, 0xfde5380c,
   0xa4beea44, 0x4bdecfa9, 0xf6bb4b60, 0xbebfbc70,
   0x289b7ec6, 0xeaa127fa, 0xd4ef3085, 0x04881d05,
   0xd9d4d039, 0xe6db99e5, 0x1fa27cf8, 0xc4ac5665,
   0xf4292244, 0x432aff97, 0xab9423a7, 0xfc93a039,
   0x655b59c3, 0x8f0ccc92, 0xffeff47d, 0x85845dd1,
   0x6fa87e4f, 0xfe2ce6e0, 0xa3014314, 0x4e0811a1,
   0xf7537e82, 0xbd3af235, 0x2ad7d2bb, 0xeb86d391]"

text \<open>Little-endian conversions between 32-bit words and bytes.\<close>

definition le_bytes32 :: "u32 \<Rightarrow> byte list" where
  "le_bytes32 w = [ucast w, ucast (drop_bit 8 w), ucast (drop_bit 16 w), ucast (drop_bit 24 w)]"

definition le_bytes64 :: "64 word \<Rightarrow> byte list" where
  "le_bytes64 w = map (\<lambda>i. ucast (drop_bit (8 * i) w)) [0..<8]"

fun le_word32 :: "byte list \<Rightarrow> u32" where
  "le_word32 [] = 0"
| "le_word32 (b # bs) = ucast b OR push_bit 8 (le_word32 bs)"

text \<open>The message padded to a multiple of 64 bytes: a one bit, zeros, the bit length mod \<open>2^64\<close>.\<close>

definition md5_pad :: "byte list \<Rightarrow> byte list" where
  "md5_pad msg =
     msg @ [0x80] @ replicate ((119 - length msg mod 64) mod 64) 0
         @ le_bytes64 (of_nat (8 * length msg))"

fun chunks :: "nat \<Rightarrow> nat \<Rightarrow> 'a list \<Rightarrow> 'a list list" where
  "chunks 0 k xs = []"
| "chunks (Suc n) k xs = take k xs # chunks n k (drop k xs)"

definition block_words :: "byte list \<Rightarrow> u32 list" where
  "block_words blk = map le_word32 (chunks 16 4 blk)"

type_synonym md5_state = "u32 \<times> u32 \<times> u32 \<times> u32"

definition md5_step :: "u32 list \<Rightarrow> md5_state \<Rightarrow> nat \<Rightarrow> md5_state" where
  "md5_step M st i =
     (case st of (a, b, c, d) \<Rightarrow>
        let (f, g) =
              (if i < 16 then ((b AND c) OR (NOT b AND d), i)
               else if i < 32 then ((d AND b) OR (NOT d AND c), (5 * i + 1) mod 16)
               else if i < 48 then (b XOR c XOR d, (3 * i + 5) mod 16)
               else (c XOR (b OR NOT d), (7 * i) mod 16));
            f' = f + a + md5_K ! i + M ! g
        in (d, b + word_rotl (md5_S ! i) f', b, c))"

definition md5_block :: "md5_state \<Rightarrow> byte list \<Rightarrow> md5_state" where
  "md5_block st blk =
     (case st of (a0, b0, c0, d0) \<Rightarrow>
        (case foldl (md5_step (block_words blk)) st [0..<64] of
           (a, b, c, d) \<Rightarrow> (a0 + a, b0 + b, c0 + c, d0 + d)))"

definition md5_init :: md5_state where
  "md5_init = (0x67452301, 0xefcdab89, 0x98badcfe, 0x10325476)"

definition md5_digest :: "byte list \<Rightarrow> byte list" where
  "md5_digest msg =
     (let p = md5_pad msg in
      case foldl md5_block md5_init (chunks (length p div 64) 64 p) of
        (a, b, c, d) \<Rightarrow> le_bytes32 a @ le_bytes32 b @ le_bytes32 c @ le_bytes32 d)"

definition hex_digit :: "nat \<Rightarrow> char" where
  "hex_digit n = ''0123456789abcdef'' ! (n mod 16)"

definition hex_of_byte :: "byte \<Rightarrow> string" where
  "hex_of_byte b = [hex_digit (unat b div 16), hex_digit (unat b mod 16)]"

definition hexdigest :: "byte list \<Rightarrow> string" where
  "hexdigest bs = concat (map hex_of_byte bs)"

subsection \<open>\<^verbatim>\<open>FileStorageService\<close>: identifiers and storage paths\<close>

definition compute_file_id :: "byte list \<Rightarrow> string" where
  "compute_file_id file = hexdigest (md5_digest file)"

definition is_hex_char :: "char \<Rightarrow> bool" where
  "is_hex_char c = (c \<in> set ''0123456789abcdef'')"

text \<open>\<^verbatim>\<open>str.lstrip(chars)\<close> for a one-character set.\<close>

definition lstrip :: "char \<Rightarrow> string \<Rightarrow> string" where
  "lstrip c s = dropWhile (\<lambda>x. x = c) s"

text \<open>
  The f-string that \<^verbatim>\<open>get_storage_path\<close> hands to \<^verbatim>\<open>Path\<close>.  The guard
  \<^verbatim>\<open>if extension:\<close> is Python truthiness: \<open>None\<close> and the empty string both skip the suffix.
  Slices beyond the end of a string are empty, as \<open>take\<close> and \<open>drop\<close> are.
\<close>

definition storage_path_str :: "string \<Rightarrow> string option \<Rightarrow> string" where
  "storage_path_str file_id extension =
     (let ext = (case extension of
                   None \<Rightarrow> ''''
                 | Some e \<Rightarrow> if e \<noteq> [] then ''.'' @ lstrip (CHR ''.'') e else '''')
      in take 3 file_id @ ''/'' @ take 3 (drop 3 file_id) @ ''/'' @ file_id @ ext)"

subsection \<open>\<^verbatim>\<open>pathlib\<close> paths (POSIX flavour)\<close>

text \<open>
  A path is its root (empty when relative, one slash, or two for exactly two leading
  slashes) and its segments.  Parsing drops empty and single-dot segments and keeps the
  double-dot ones.
\<close>

datatype path = Path (root: string) (parts: "string list")

text \<open>\<^verbatim>\<open>str.split(sep)\<close>: always at least one field.\<close>

fun split_on :: "char \<Rightarrow> string \<Rightarrow> string list" where
  "split_on c [] = [[]]"
| "split_on c (x # xs) =
     (if x = c then [] # split_on c xs
      else (case split_on c xs of [] \<Rightarrow> [[x]] | w # ws \<Rightarrow> (x # w) # ws))"

definition parse_path :: "string \<Rightarrow> path" where
  "parse_path s =
     Path (if take 2 s = ''//'' \<and> take 3 s \<noteq> ''///'' then ''//''
           else if take 1 s = ''/'' then ''/'' else '''')
          (filter (\<lambda>p. p \<noteq> [] \<and> p \<noteq> ''.'') (split_on (CHR ''/'') s))"

text \<open>\<^verbatim>\<open>a / b\<close>: an anchored right operand replaces the left one.\<close>

definition joinpath :: "path \<Rightarrow> path \<Rightarrow> path" where
  "joinpath a b = (if root b \<noteq> [] then b else Path (root a) (parts a @ parts b))"

definition parent :: "path \<Rightarrow> path" where
  "parent p = Path (root p) (butlast (parts p))"

fun intercalate :: "string \<Rightarrow> string list \<Rightarrow> string" where
  "intercalate sep [] = []"
| "intercalate sep [x] = x"
| "intercalate sep (x # y # ys) = x @ sep @ intercalate sep (y # ys)"

definition as_posix :: "path \<Rightarrow> string" where
  "as_posix p =
     (if root p = [] \<and> parts p = [] then ''.'' else root p @ intercalate ''/'' (parts p))"

definition get_storage_path :: "string \<Rightarrow> string option \<Rightarrow> path" where
  "get_storage_path file_id extension = parse_path (storage_path_str file_id extension)"

text \<open>
  \<^verbatim>\<open>upload_file\<close> of the base class, over the backend's \<^verbatim>\<open>upload_file_with_id\<close>
  (the abstract method, here a parameter acting on the backend's state).  The body awaits the
  call and ends without a \<^verbatim>\<open>return\<close>, so the coroutine's value is \<open>None\<close>; an exception of
  the call propagates.
\<close>

definition upload_file ::
  "(string \<Rightarrow> byte list \<Rightarrow> string option \<Rightarrow> 's \<Rightarrow> (exn + bool) \<times> 's)
     \<Rightarrow> byte list \<Rightarrow> string option \<Rightarrow> 's \<Rightarrow> (exn + pyval) \<times> 's" where
  "upload_file upload_file_with_id file extension s =
     (case upload_file_with_id (compute_file_id file) file extension s of
        (Inl e, s') \<Rightarrow> (Inl e, s')
      | (Inr b, s') \<Rightarrow> (Inr PyNone, s'))"

section \<open>Local filesystem backend\<close>

subsection \<open>The file tree and its system calls\<close>

text \<open>
  A location is the list of names that leads to it from the root directory, and the
  filesystem maps a location to what is there (no symbolic links).  The root and the
  working directory of the process are directories.
\<close>

datatype node = File "byte list" | Dir

type_synonym location = "string list"

type_synonym filesystem = "location \<Rightarrow> node option"

text \<open>
  The error numbers of the system calls, and the exception that Python raises for each:
  \<open>OSError\<close> picks its subclass from the number.
\<close>

datatype errno = ENOENT | ENOTDIR | EBADF | ELOOP | EEXIST | EISDIR | EACCES | ENAMETOOLONG

fun oserror :: "errno \<Rightarrow> exn" where
  "oserror ENOENT = Raised FileNotFoundError ''No such file or directory''"
| "oserror ENOTDIR = Raised NotADirectoryError ''Not a directory''"
| "oserror EBADF = Raised OSError ''Bad file descriptor''"
| "oserror ELOOP = Raised OSError ''Too many levels of symbolic links''"
| "oserror EEXIST = Raised FileExistsError ''File exists''"
| "oserror EISDIR = Raised IsADirectoryError ''Is a directory''"
| "oserror EACCES = Raised PermissionError ''Permission denied''"
| "oserror ENAMETOOLONG = Raised OSError ''File name too long''"

text \<open>
  What a call of \<^verbatim>\<open>os.stat\<close>, \<^verbatim>\<open>os.mkdir\<close> or \<^verbatim>\<open>open\<close> fails with: an error number of the
  system call, or the \<open>ValueError\<close> that the conversion of a path with a null character
  raises before the system call is made.
\<close>

datatype fault = Errno errno | EmbeddedNul

fun exn_of_fault :: "fault \<Rightarrow> exn" where
  "exn_of_fault (Errno e) = oserror e"
| "exn_of_fault EmbeddedNul = Raised ValueError ''embedded null byte''"

text \<open>
  The surroundings of the process: its working directory, the directories it may not search
  and those it may not add entries to, and what the operating system does to a successful
  \<^verbatim>\<open>open("wb")\<close> and the \<^verbatim>\<open>write\<close> after it: \<open>open_raises\<close> is the exception of the open,
  if any; \<open>write_raises\<close> the exception of the write together with the number of bytes that
  reached the file before it.
\<close>

record local_env =
  cwd :: location
  unsearchable :: "location \<Rightarrow> bool"
  unwritable :: "location \<Rightarrow> bool"
  open_raises :: "exn option"
  write_raises :: "(exn \<times> nat) option"

text \<open>The limits of Linux: bytes in a name, and bytes in a path with its terminator.\<close>

definition name_max :: nat where
  "name_max = 255"

definition path_max :: nat where
  "path_max = 4096"

definition node_at :: "local_env \<Rightarrow> filesystem \<Rightarrow> location \<Rightarrow> node option" where
  "node_at env fs l = (if l = [] \<or> l = cwd env then Some Dir else fs l)"

text \<open>
  Path resolution: from the location \<open>cur\<close>, follow the names one by one.  Each step needs a
  searchable directory to look the name up in; a double-dot leads to the directory above (to
  the root itself from the root).  The result is the location the names lead to, whether or
  not something is there.
\<close>

fun walk :: "local_env \<Rightarrow> filesystem \<Rightarrow> location \<Rightarrow> string list \<Rightarrow> errno + location" where
  "walk env fs cur [] = Inr cur"
| "walk env fs cur (c # cs) =
     (case node_at env fs cur of
        None \<Rightarrow> Inl ENOENT
      | Some (File content) \<Rightarrow> Inl ENOTDIR
      | Some Dir \<Rightarrow>
          if unsearchable env cur then Inl EACCES
          else if c = ''..'' then walk env fs (butlast cur) cs
          else if name_max < length c then Inl ENAMETOOLONG
          else walk env fs (cur @ [c]) cs)"

text \<open>What is wrong with a path whatever the file tree holds.\<close>

definition path_fault :: "path \<Rightarrow> fault option" where
  "path_fault p =
     (if CHR 0x00 \<in> set (as_posix p) then Some EmbeddedNul
      else if path_max \<le> length (as_posix p) then Some (Errno ENAMETOOLONG)
      else None)"

definition start :: "local_env \<Rightarrow> path \<Rightarrow> location" where
  "start env p = (if root p = [] then cwd env else [])"

definition lookup :: "local_env \<Rightarrow> filesystem \<Rightarrow> path \<Rightarrow> fault + location" where
  "lookup env fs p =
     (case path_fault p of
        Some f \<Rightarrow> Inl f
      | None \<Rightarrow>
          (case walk env fs (start env p) (parts p) of
             Inl e \<Rightarrow> Inl (Errno e)
           | Inr l \<Rightarrow> Inr l))"

text \<open>Whether the last segment of a path names an entry of the directory before it.\<close>

definition names_entry :: "path \<Rightarrow> bool" where
  "names_entry p = (parts p \<noteq> [] \<and> last (parts p) \<noteq> ''..'')"

text \<open>\<^verbatim>\<open>os.stat(path)\<close>: what is at the path.\<close>

definition os_stat :: "local_env \<Rightarrow> filesystem \<Rightarrow> path \<Rightarrow> fault + node" where
  "os_stat env fs p =
     (case lookup env fs p of
        Inl f \<Rightarrow> Inl f
      | Inr l \<Rightarrow> (case node_at env fs l of None \<Rightarrow> Inl (Errno ENOENT) | Some n \<Rightarrow> Inr n))"

text \<open>\<^verbatim>\<open>os.mkdir(path)\<close>: one new directory, in a directory that exists.\<close>

definition os_mkdir :: "local_env \<Rightarrow> path \<Rightarrow> filesystem \<Rightarrow> fault + filesystem" where
  "os_mkdir env p fs =
     (case lookup env fs p of
        Inl f \<Rightarrow> Inl f
      | Inr l \<Rightarrow>
          if \<not> names_entry p \<or> node_at env fs l \<noteq> None then Inl (Errno EEXIST)
          else if unwritable env (butlast l) then Inl (Errno EACCES)
          else Inr (fs(l \<mapsto> Dir)))"

text \<open>
  \<^verbatim>\<open>path.open("wb")\<close> followed by \<^verbatim>\<open>f.write(content)\<close> and the close of the \<^verbatim>\<open>with\<close> block:
  the open creates the file or empties the one that is there.
\<close>

definition open_write :: "local_env \<Rightarrow> path \<Rightarrow> byte list \<Rightarrow> filesystem \<Rightarrow> exn option \<times> filesystem" where
  "open_write env p content fs =
     (case lookup env fs p of
        Inl f \<Rightarrow> (Some (exn_of_fault f), fs)
      | Inr l \<Rightarrow>
          if \<not> names_entry p \<or> node_at env fs l = Some Dir then (Some (oserror EISDIR), fs)
          else if node_at env fs l = None \<and> unwritable env (butlast l)
          then (Some (oserror EACCES), fs)
          else (case open_raises env of
                  Some e \<Rightarrow> (Some e, fs)
                | None \<Rightarrow>
                    (case write_raises env of
                       Some (e, k) \<Rightarrow> (Some e, fs(l \<mapsto> File (take k content)))
                     | None \<Rightarrow> (None, fs(l \<mapsto> File content)))))"

subsection \<open>\<^verbatim>\<open>pathlib\<close> over the system calls\<close>

text \<open>
  \<^verbatim>\<open>_ignore_error\<close>: the error numbers that \<^verbatim>\<open>Path.exists\<close> and \<^verbatim>\<open>Path.is_dir\<close> take
  for "not there"; they raise every other \<open>OSError\<close> of the \<^verbatim>\<open>stat\<close> and answer \<open>False\<close> to a
  \<open>ValueError\<close>.
\<close>

definition ignore_error :: "errno \<Rightarrow> bool" where
  "ignore_error e = (e = ENOENT \<or> e = ENOTDIR \<or> e = EBADF \<or> e = ELOOP)"

definition path_exists :: "local_env \<Rightarrow> filesystem \<Rightarrow> path \<Rightarrow> exn + bool" where
  "path_exists env fs p =
     (case os_stat env fs p of
        Inr n \<Rightarrow> Inr True
      | Inl EmbeddedNul \<Rightarrow> Inr False
      | Inl (Errno e) \<Rightarrow> if ignore_error e then Inr False else Inl (oserror e))"

definition is_dir :: "local_env \<Rightarrow> filesystem \<Rightarrow> path \<Rightarrow> exn + bool" where
  "is_dir env fs p =
     (case os_stat env fs p of
        Inr n \<Rightarrow> Inr (n = Dir)
      | Inl EmbeddedNul \<Rightarrow> Inr False
      | Inl (Errno e) \<Rightarrow> if ignore_error e then Inr False else Inl (oserror e))"

text \<open>
  \<^verbatim>\<open>Path.mkdir(parents=False, exist_ok=True)\<close>: a \<open>FileNotFoundError\<close> of \<^verbatim>\<open>os.mkdir\<close> is raised,
  any other \<open>OSError\<close> is raised unless the path is a directory, and a \<open>ValueError\<close> is not
  handled.
\<close>

definition mkdir_single :: "local_env \<Rightarrow> path \<Rightarrow> filesystem \<Rightarrow> exn option \<times> filesystem" where
  "mkdir_single env p fs =
     (case os_mkdir env p fs of
        Inr fs' \<Rightarrow> (None, fs')
      | Inl EmbeddedNul \<Rightarrow> (Some (exn_of_fault EmbeddedNul), fs)
      | Inl (Errno e) \<Rightarrow>
          if e = ENOENT then (Some (oserror e), fs)
          else (case is_dir env fs p of
                  Inl x \<Rightarrow> (Some x, fs)
                | Inr b \<Rightarrow> (if b then None else Some (oserror e), fs)))"

text \<open>
  \<^verbatim>\<open>Path.mkdir(parents=True, exist_ok=True)\<close> on the path with root \<open>r\<close> and the segments
  \<open>rev rparts\<close>: on a \<open>FileNotFoundError\<close> of \<^verbatim>\<open>os.mkdir\<close> (\<open>parent_missing\<close>) the parent is made in the same way
  and the directory is then made with \<^verbatim>\<open>parents=False\<close>; a path without segments is its own
  parent and raises.  Every other outcome is that of \<^verbatim>\<open>parents=False\<close>.
\<close>

definition parent_missing :: "local_env \<Rightarrow> path \<Rightarrow> filesystem \<Rightarrow> bool" where
  "parent_missing env p fs =
     (case os_mkdir env p fs of Inl f \<Rightarrow> f = Errno ENOENT | Inr fs' \<Rightarrow> False)"

fun mkdir_rev :: "local_env \<Rightarrow> string \<Rightarrow> string list \<Rightarrow> filesystem \<Rightarrow> exn option \<times> filesystem" where
  "mkdir_rev env r [] fs = mkdir_single env (Path r []) fs"
| "mkdir_rev env r (c # rpre) fs =
     (if parent_missing env (Path r (rev (c # rpre))) fs
      then (case mkdir_rev env r rpre fs of
              (Some e, fs1) \<Rightarrow> (Some e, fs1)
            | (None, fs1) \<Rightarrow> mkdir_single env (Path r (rev (c # rpre))) fs1)
      else mkdir_single env (Path r (rev (c # rpre))) fs)"

definition mkdir_parents :: "local_env \<Rightarrow> path \<Rightarrow> filesystem \<Rightarrow> exn option \<times> filesystem" where
  "mkdir_parents env p fs = mkdir_rev env (root p) (rev (parts p)) fs"

subsection \<open>\<^verbatim>\<open>LocalFileStorageService\<close>\<close>

record local_service =
  root_path :: path

text \<open>The handler \<^verbatim>\<open>except (OSError, ValueError)\<close>.\<close>

definition local_catches :: "exn \<Rightarrow> bool" where
  "local_catches e = (isinstance e OSError \<or> isinstance e ValueError)"

text \<open>
  The directories are made and the existence of the file is tested before the \<^verbatim>\<open>try\<close>
  block: an exception of either reaches the caller.
\<close>

definition local_upload_file_with_id ::
  "local_service \<Rightarrow> local_env \<Rightarrow> string \<Rightarrow> byte list \<Rightarrow> string option
     \<Rightarrow> filesystem \<Rightarrow> (exn + bool) \<times> filesystem" where
  "local_upload_file_with_id svc env file_id file extension fs =
     (let storage_path = get_storage_path file_id extension;
          local_path = joinpath (root_path svc) storage_path
      in case mkdir_parents env (parent local_path) fs of
           (Some e, fs1) \<Rightarrow> (Inl e, fs1)
         | (None, fs1) \<Rightarrow>
             (case path_exists env fs1 local_path of
                Inl e \<Rightarrow> (Inl e, fs1)
              | Inr True \<Rightarrow> (Inr False, fs1)
              | Inr False \<Rightarrow>
                  (case open_write env local_path file fs1 of
                     (Some e, fs2) \<Rightarrow> (if local_catches e then Inr False else Inl e, fs2)
                   | (None, fs2) \<Rightarrow> (Inr True, fs2))))"

definition local_exists ::
  "local_service \<Rightarrow> local_env \<Rightarrow> path \<Rightarrow> filesystem \<Rightarrow> (exn + bool) \<times> filesystem" where
  "local_exists svc env storage_path fs =
     (let local_path = joinpath (root_path svc) storage_path
      in (path_exists env fs local_path, fs))"

text \<open>
  Surroundings in which the operating system refuses nothing: the working directory is
  the root, every directory may be searched and written to, and no open or write fails.
\<close>

definition no_faults :: local_env where
  "no_faults = \<lparr>cwd = [], unsearchable = (\<lambda>l. False), unwritable = (\<lambda>l. False),
                 open_raises = None, write_raises = None\<rparr>"

text \<open>
  The storage path as the specification words it: the first three characters, the next
  three, the whole identifier, and a dot with the extension (leading dots stripped) whenever
  an extension is given.
\<close>

definition spec_storage_path_str :: "string \<Rightarrow> string option \<Rightarrow> string" where
  "spec_storage_path_str file_id extension =
     take 3 file_id @ ''/'' @ take 3 (drop 3 file_id) @ ''/'' @ file_id @
       (case extension of None \<Rightarrow> '''' | Some e \<Rightarrow> ''.'' @ lstrip (CHR ''.'') e)"

text \<open>The 21 bytes of \<^verbatim>\<open>b"This is a test file.\n"\<close> and a service rooted at \<^verbatim>\<open>/tmp/store\<close>.\<close>

definition test_blob :: "byte list" where
  "test_blob = [84, 104, 105, 115, 32, 105, 115, 32, 97, 32, 116, 101, 115, 116, 32,
                102, 105, 108, 101, 46, 10]"

definition tmp_service :: local_service where
  "tmp_service = \<lparr>root_path = Path ''/'' [''tmp'', ''store'']\<rparr>"

section \<open>\<^verbatim>\<open>tenacity\<close> retry decorators\<close>

text \<open>
  \<^verbatim>\<open>wait_exponential(multiplier=1, min=1, max=10)\<close> with the default base 2: the wait after
  attempt number \<open>n\<close> (counted from 1), in seconds.
\<close>

definition wait_exponential :: "nat \<Rightarrow> nat" where
  "wait_exponential attempt_number = max (max 0 1) (min (1 * 2 ^ (attempt_number - 1)) 10)"

text \<open>
  The retry loop.  \<open>left\<close> counts the attempts still allowed after the current one and \<open>n\<close> is
  the current attempt number.  A returned value ends the loop; so does an exception that the
  retry predicate rejects, which is raised as it is.  When the stop condition holds, the last
  exception is raised as it is with \<^verbatim>\<open>reraise=True\<close> and wrapped in \<open>RetryError\<close>
  otherwise.  The second component of the result lists the retried exceptions, each with the
  sleep that followed it.
\<close>

fun attempts ::
  "nat \<Rightarrow> nat \<Rightarrow> (exn \<Rightarrow> bool) \<Rightarrow> bool \<Rightarrow> ('s \<Rightarrow> (exn + 'a) \<times> 's) \<Rightarrow> 's
     \<Rightarrow> ((exn + 'a) \<times> 's) \<times> (exn \<times> nat) list" where
  "attempts 0 n retry_if reraise body s =
     (case body s of
        (Inr v, s') \<Rightarrow> ((Inr v, s'), [])
      | (Inl e, s') \<Rightarrow>
          if \<not> retry_if e then ((Inl e, s'), [])
          else ((Inl (if reraise then e else RetryError e), s'), []))"
| "attempts (Suc left) n retry_if reraise body s =
     (case body s of
        (Inr v, s') \<Rightarrow> ((Inr v, s'), [])
      | (Inl e, s') \<Rightarrow>
          if \<not> retry_if e then ((Inl e, s'), [])
          else (case attempts left (Suc n) retry_if reraise body s' of
                  (r, retried) \<Rightarrow> (r, (e, wait_exponential n) # retried)))"

definition tenacity_retry ::
  "nat \<Rightarrow> (exn \<Rightarrow> bool) \<Rightarrow> bool \<Rightarrow> ('s \<Rightarrow> (exn + 'a) \<times> 's) \<Rightarrow> 's
     \<Rightarrow> ((exn + 'a) \<times> 's) \<times> (exn \<times> nat) list" where
  "tenacity_retry stop_after_attempt retry_if reraise body s =
     attempts (stop_after_attempt - 1) 1 retry_if reraise body s"

text \<open>The default predicate \<^verbatim>\<open>retry_if_exception_type()\<close>: any \<open>Exception\<close>.\<close>

definition retry_any_exception :: "exn \<Rightarrow> bool" where
  "retry_any_exception e = isinstance e Exception"

text \<open>
  \<^verbatim>\<open>@retry(stop=stop_after_attempt(5), wait=wait_exponential(multiplier=1, min=1, max=10))\<close>,
  the decorator of the storage backends' connection methods.
\<close>

definition storage_retry :: "('s \<Rightarrow> (exn + 'a) \<times> 's) \<Rightarrow> 's \<Rightarrow> ((exn + 'a) \<times> 's) \<times> (exn \<times> nat) list" where
  "storage_retry body s = tenacity_retry 5 retry_any_exception False body s"

text \<open>
  Outcomes of a fallible library call that is made repeatedly: the head of the script is the
  next call's exception, if any; an exhausted script means success.
\<close>

fun next_outcome :: "exn option list \<Rightarrow> exn option \<times> exn option list" where
  "next_outcome [] = (None, [])"
| "next_outcome (x # xs) = (x, xs)"

section \<open>SFTP backend\<close>

datatype client_state = Live | Broken exn

record sftp_service =
  sftp_host :: string
  sftp_port :: nat
  sftp_root_path :: path

text \<open>
  The mutable part: the client handle (\<open>Broken e\<close>: the probe \<^verbatim>\<open>listdir(".")\<close> raises \<open>e\<close>),
  the outcomes of the coming transport handshakes, the files on the server, and the outcome
  of the remote calls of the write phase.
\<close>

record sftp_world =
  sftp_client :: "client_state option"
  transport_script :: "exn option list"
  remote_files :: "string \<Rightarrow> node option"
  sftp_io_raises :: "exn option"

definition sftp_is_connected :: "sftp_world \<Rightarrow> exn + bool" where
  "sftp_is_connected w =
     (case sftp_client w of
        None \<Rightarrow> Inr False
      | Some Live \<Rightarrow> Inr True
      | Some (Broken e) \<Rightarrow> if isinstance e SSHException then Inr False else Inl e)"

text \<open>The body of \<^verbatim>\<open>ensure_connection\<close>: one connection attempt.\<close>

definition sftp_connect_attempt :: "sftp_world \<Rightarrow> (exn + unit) \<times> sftp_world" where
  "sftp_connect_attempt w =
     (case sftp_is_connected w of
        Inl e \<Rightarrow> (Inl e, w)
      | Inr True \<Rightarrow> (Inr (), w)
      | Inr False \<Rightarrow>
          (case next_outcome (transport_script w) of
             (Some e, rest) \<Rightarrow> (Inl e, w\<lparr>transport_script := rest\<rparr>)
           | (None, rest) \<Rightarrow> (Inr (), w\<lparr>sftp_client := Some Live, transport_script := rest\<rparr>)))"

definition sftp_ensure_connection :: "sftp_world \<Rightarrow> ((exn + unit) \<times> sftp_world) \<times> (exn \<times> nat) list" where
  "sftp_ensure_connection w = storage_retry sftp_connect_attempt w"

definition sftp_remote_path :: "sftp_service \<Rightarrow> path \<Rightarrow> string" where
  "sftp_remote_path svc storage_path = as_posix (joinpath (sftp_root_path svc) storage_path)"

text \<open>
  \<^verbatim>\<open>exists\<close> when it is awaited: \<^verbatim>\<open>stat\<close> raises \<open>FileNotFoundError\<close> for a missing path,
  which becomes \<open>False\<close>.
\<close>

definition sftp_exists :: "sftp_service \<Rightarrow> path \<Rightarrow> sftp_world \<Rightarrow> (exn + bool) \<times> sftp_world" where
  "sftp_exists svc storage_path w =
     (case fst (sftp_ensure_connection w) of
        (Inl e, w1) \<Rightarrow> (Inl e, w1)
      | (Inr u, w1) \<Rightarrow> (Inr (remote_files w1 (sftp_remote_path svc storage_path) \<noteq> None), w1))"

text \<open>
  What \<^verbatim>\<open>self.exists(storage_path)\<close> evaluates to inside \<^verbatim>\<open>upload_file_with_id\<close>:
  \<^verbatim>\<open>exists\<close> is an \<^verbatim>\<open>async def\<close> and the call is not awaited, so its body does not run and
  the value is the coroutine object.
\<close>

definition sftp_exists_unawaited :: "sftp_service \<Rightarrow> path \<Rightarrow> sftp_world \<Rightarrow> pyval" where
  "sftp_exists_unawaited svc storage_path w = Coroutine"

text \<open>\<^verbatim>\<open>s.rsplit("/", 1)[0]\<close>: the text before the last slash, or all of it without one.\<close>

definition rsplit1_head :: "string \<Rightarrow> string" where
  "rsplit1_head s =
     (if CHR ''/'' \<in> set s then rev (drop 1 (dropWhile (\<lambda>c. c \<noteq> CHR ''/'') (rev s))) else s)"

text \<open>The loop that stats each ancestor and creates the missing ones.\<close>

fun sftp_make_dirs :: "string \<Rightarrow> string list \<Rightarrow> (string \<Rightarrow> node option) \<Rightarrow> (string \<Rightarrow> node option)" where
  "sftp_make_dirs current [] files = files"
| "sftp_make_dirs current (part # rest) files =
     (let cur = (if current \<noteq> [] then current @ ''/'' @ part else part)
      in sftp_make_dirs cur rest (case files cur of None \<Rightarrow> files(cur \<mapsto> Dir) | Some n \<Rightarrow> files))"

text \<open>
  \<^verbatim>\<open>upload_file_with_id\<close>: the connection first, outside any \<^verbatim>\<open>try\<close>; then the
  \<^verbatim>\<open>if\<close> on the unawaited call.  What follows it in the source runs for a false condition
  only: the directory loop and the write, each in a \<^verbatim>\<open>try\<close> whose handler
  \<^verbatim>\<open>except Exception\<close> returns \<open>False\<close>; \<open>sftp_io_raises\<close> is the exception of their
  remote calls, if any.
\<close>

definition sftp_upload_file_with_id ::
  "sftp_service \<Rightarrow> string \<Rightarrow> byte list \<Rightarrow> string option \<Rightarrow> sftp_world \<Rightarrow> (exn + bool) \<times> sftp_world" where
  "sftp_upload_file_with_id svc file_id file extension w =
     (case fst (sftp_ensure_connection w) of
        (Inl e, w1) \<Rightarrow> (Inl e, w1)
      | (Inr u, w1) \<Rightarrow>
          let storage_path = get_storage_path file_id extension;
              remote_path = sftp_remote_path svc storage_path
          in if truthy (sftp_exists_unawaited svc storage_path w1) then (Inr False, w1)
             else (case sftp_io_raises w1 of
                     Some e \<Rightarrow> (if isinstance e Exception then Inr False else Inl e, w1)
                   | None \<Rightarrow>
                       (Inr True,
                        w1\<lparr>remote_files :=
                             (sftp_make_dirs [] (split_on (CHR ''/'') (rsplit1_head remote_path))
                                (remote_files w1))(remote_path \<mapsto> File file)\<rparr>)))"

section \<open>Google Cloud Storage backend\<close>

record gcs_service =
  gcs_bucket_name :: string
  gcs_project_id :: string
  gcs_root_path :: path

text \<open>
  The mutable part: whether the client and the bucket handle are set, the outcomes of the
  coming \<^verbatim>\<open>storage.Client\<close> constructions, the bucket's objects, and what the two blob calls
  raise.
\<close>

record gcs_world =
  gcs_client :: bool
  gcs_bucket :: bool
  client_script :: "exn option list"
  gcs_objects :: "string \<Rightarrow> byte list option"
  blob_exists_raises :: "exn option"
  upload_from_string_raises :: "exn option"

definition gcs_connect_attempt :: "gcs_service \<Rightarrow> gcs_world \<Rightarrow> (exn + unit) \<times> gcs_world" where
  "gcs_connect_attempt svc w =
     (case (if \<not> gcs_client w
            then (case next_outcome (client_script w) of
                    (Some e, rest) \<Rightarrow> (Some e, w\<lparr>client_script := rest\<rparr>)
                  | (None, rest) \<Rightarrow> (None, w\<lparr>gcs_client := True, client_script := rest\<rparr>))
            else (None, w)) of
        (Some e, w1) \<Rightarrow> (Inl e, w1)
      | (None, w1) \<Rightarrow>
          (Inr (), if \<not> gcs_bucket w1 \<and> gcs_bucket_name svc \<noteq> [] then w1\<lparr>gcs_bucket := True\<rparr> else w1))"

definition gcs_ensure_connection ::
  "gcs_service \<Rightarrow> gcs_world \<Rightarrow> ((exn + unit) \<times> gcs_world) \<times> (exn \<times> nat) list" where
  "gcs_ensure_connection svc w = storage_retry (gcs_connect_attempt svc) w"

definition gcs_path :: "gcs_service \<Rightarrow> path \<Rightarrow> string" where
  "gcs_path svc storage_path = as_posix (joinpath (gcs_root_path svc) storage_path)"

text \<open>
  The handler \<^verbatim>\<open>except Exception\<close> of the write phase.  Without a bucket handle the
  attribute access on \<open>None\<close> raises inside the \<^verbatim>\<open>try\<close> and is caught as well.
\<close>

definition gcs_upload_file_with_id ::
  "gcs_service \<Rightarrow> string \<Rightarrow> byte list \<Rightarrow> string option \<Rightarrow> gcs_world \<Rightarrow> (exn + bool) \<times> gcs_world" where
  "gcs_upload_file_with_id svc file_id file extension w =
     (case fst (gcs_ensure_connection svc w) of
        (Inl e, w1) \<Rightarrow> (Inl e, w1)
      | (Inr u, w1) \<Rightarrow>
          let key = gcs_path svc (get_storage_path file_id extension)
          in if \<not> gcs_bucket w1 then (Inr False, w1)
             else (case blob_exists_raises w1 of
                     Some e \<Rightarrow> (if isinstance e Exception then Inr False else Inl e, w1)
                   | None \<Rightarrow>
                       if gcs_objects w1 key \<noteq> None then (Inr False, w1)
                       else (case upload_from_string_raises w1 of
                               Some e \<Rightarrow> (if isinstance e Exception then Inr False else Inl e, w1)
                             | None \<Rightarrow> (Inr True, w1\<lparr>gcs_objects := (gcs_objects w1)(key \<mapsto> file)\<rparr>))))"

definition gcs_exists :: "gcs_service \<Rightarrow> path \<Rightarrow> gcs_world \<Rightarrow> (exn + bool) \<times> gcs_world" where
  "gcs_exists svc storage_path w =
     (case fst (gcs_ensure_connection svc w) of
        (Inl e, w1) \<Rightarrow> (Inl e, w1)
      | (Inr u, w1) \<Rightarrow>
          (case blob_exists_raises w1 of
             Some e \<Rightarrow> (Inl e, w1)
           | None \<Rightarrow> (Inr (gcs_objects w1 (gcs_path svc storage_path) \<noteq> None), w1)))"

section \<open>S3 backend\<close>

record s3_service =
  s3_bucket_name :: string
  s3_endpoint_url :: string
  s3_root_path :: path

text \<open>
  The mutable part: whether the aioboto3 session is set, the outcomes of the coming client
  constructions, the bucket's objects (key and body, keys distinct), and what the two object
  calls raise.
\<close>

record s3_world =
  s3_session :: bool
  s3_client_script :: "exn option list"
  s3_objects :: "(string \<times> byte list) list"
  list_objects_raises :: "exn option"
  put_object_raises :: "exn option"

definition s3_client_attempt :: "s3_world \<Rightarrow> (exn + unit) \<times> s3_world" where
  "s3_client_attempt w =
     (case next_outcome (s3_client_script w) of
        (Some e, rest) \<Rightarrow> (Inl e, w\<lparr>s3_session := True, s3_client_script := rest\<rparr>)
      | (None, rest) \<Rightarrow> (Inr (), w\<lparr>s3_session := True, s3_client_script := rest\<rparr>))"

definition s3_get_client :: "s3_world \<Rightarrow> ((exn + unit) \<times> s3_world) \<times> (exn \<times> nat) list" where
  "s3_get_client w = storage_retry s3_client_attempt w"

definition starts_with :: "string \<Rightarrow> string \<Rightarrow> bool" where
  "starts_with pfx s = (take (length pfx) s = pfx)"

text \<open>
  \<^verbatim>\<open>list_objects_v2(Prefix=..., MaxKeys=...)\<close>: the keys with the prefix, in ascending
  order of their bytes, cut at \<open>max_keys\<close>.
\<close>

definition list_objects_v2 :: "(string \<times> byte list) list \<Rightarrow> string \<Rightarrow> nat \<Rightarrow> string list" where
  "list_objects_v2 objs pfx max_keys =
     take max_keys (sort (remdups (filter (starts_with pfx) (map fst objs))))"

definition put_object :: "string \<Rightarrow> byte list \<Rightarrow> (string \<times> byte list) list \<Rightarrow> (string \<times> byte list) list" where
  "put_object key body objs = (key, body) # filter (\<lambda>kv. fst kv \<noteq> key) objs"

definition s3_path :: "s3_service \<Rightarrow> path \<Rightarrow> string" where
  "s3_path svc storage_path = as_posix (joinpath (s3_root_path svc) storage_path)"

text \<open>The handler \<^verbatim>\<open>except (BotoCoreError, ClientError)\<close>, around the whole body.\<close>

definition s3_catches :: "exn \<Rightarrow> bool" where
  "s3_catches e = (isinstance e BotoCoreError \<or> isinstance e ClientError)"

definition s3_upload_file_with_id ::
  "s3_service \<Rightarrow> string \<Rightarrow> byte list \<Rightarrow> string option \<Rightarrow> s3_world \<Rightarrow> (exn + bool) \<times> s3_world" where
  "s3_upload_file_with_id svc file_id file extension w =
     (let key = s3_path svc (get_storage_path file_id extension)
      in case fst (s3_get_client w) of
           (Inl e, w1) \<Rightarrow> (if s3_catches e then Inr False else Inl e, w1)
         | (Inr u, w1) \<Rightarrow>
             (case list_objects_raises w1 of
                Some e \<Rightarrow> (if s3_catches e then Inr False else Inl e, w1)
              | None \<Rightarrow>
                  if key \<in> set (list_objects_v2 (s3_objects w1) key 1) then (Inr False, w1)
                  else (case put_object_raises w1 of
                          Some e \<Rightarrow> (if s3_catches e then Inr False else Inl e, w1)
                        | None \<Rightarrow>
                            (Inr True, w1\<lparr>s3_objects := put_object key file (s3_objects w1)\<rparr>))))"

definition s3_exists :: "s3_service \<Rightarrow> path \<Rightarrow> s3_world \<Rightarrow> (exn + bool) \<times> s3_world" where
  "s3_exists svc storage_path w =
     (let key = s3_path svc storage_path
      in case fst (s3_get_client w) of
           (Inl e, w1) \<Rightarrow> (if s3_catches e then Inr False else Inl e, w1)
         | (Inr u, w1) \<Rightarrow>
             (case list_objects_raises w1 of
                Some e \<Rightarrow> (if s3_catches e then Inr False else Inl e, w1)
              | None \<Rightarrow> (Inr (key \<in> set (list_objects_v2 (s3_objects w1) key 1)), w1)))"

section \<open>Relational session manager\<close>

datatype argval = IntArg int | BoolArg bool | FuncArg string

type_synonym kwargs = "string \<Rightarrow> argval option"

record engine =
  engine_id :: nat
  engine_url :: string
  engine_connect_args :: kwargs
  engine_kwargs :: kwargs

record session =
  session_id :: nat
  session_bind :: "engine option"

text \<open>
  The instance attributes.  \<open>async_creator_func\<close> is what the overridable
  \<^verbatim>\<open>_get_async_creator_func\<close> returns: \<open>None\<close> in the base class, a creator in the Cloud SQL
  subclass.
\<close>

record sql_service =
  url :: string
  engine :: "engine option"
  session_maker :: bool
  engine_args :: kwargs
  connect_args :: kwargs
  async_creator_func :: "string option"

type_synonym task = nat

text \<open>
  Everything outside the instance.  \<open>session_ctx\<close> is the class attribute \<^verbatim>\<open>_session_ctx\<close>,
  one \<^verbatim>\<open>ContextVar\<close> for the class and its subclasses: its value depends on the running task
  only.  The scripts give the outcomes of the coming engine constructions, session
  constructions, session method calls, \<^verbatim>\<open>session.close()\<close> calls and
  \<^verbatim>\<open>engine.dispose()\<close> calls; \<open>next_id\<close> numbers the objects created.
\<close>

record db_world =
  session_ctx :: "task \<Rightarrow> session option"
  engine_script :: "exn option list"
  session_script :: "exn option list"
  query_script :: "exn option list"
  close_script :: "exn option list"
  dispose_script :: "exn option list"
  next_id :: nat
  engines_built :: nat
  closed_sessions :: "nat list"
  disposed_engines :: "nat list"





fun contains_substr :: "string \<Rightarrow> string \<Rightarrow> bool" where
  "contains_substr sub [] = (sub = [])"
| "contains_substr sub (c # cs) = (starts_with sub (c # cs) \<or> contains_substr sub cs)"


definition get_session :: "sql_service \<Rightarrow> task \<Rightarrow> db_world \<Rightarrow> session option" where
  "get_session svc t w = session_ctx w t"

text \<open>The first \<^verbatim>\<open>try\<close> block of \<^verbatim>\<open>connect\<close>: engine and session factory.\<close>

definition build_engine :: "sql_service \<Rightarrow> db_world \<Rightarrow> exn option \<times> sql_service \<times> db_world" where
  "build_engine svc w =
     (let svc1 = (case async_creator_func svc of
                    None \<Rightarrow> svc
                  | Some c \<Rightarrow> svc\<lparr>engine_args := (engine_args svc)(''async_creator'' \<mapsto> FuncArg c)\<rparr>)
      in case next_outcome (engine_script w) of
           (Some e, rest) \<Rightarrow> (Some e, svc1, w\<lparr>engine_script := rest\<rparr>)
         | (None, rest) \<Rightarrow>
             (None,
              svc1\<lparr>engine := Some \<lparr>engine_id = next_id w, engine_url = url svc1,
                                   engine_connect_args = connect_args svc1,
                                   engine_kwargs = engine_args svc1\<rparr>,
                   session_maker := True\<rparr>,
              w\<lparr>engine_script := rest, next_id := Suc (next_id w),
                engines_built := Suc (engines_built w)\<rparr>))"

definition connect :: "sql_service \<Rightarrow> task \<Rightarrow> db_world \<Rightarrow> (exn + unit) \<times> sql_service \<times> db_world" where
  "connect svc t w =
     (if get_session svc t w \<noteq> None then (Inr (), svc, w)
      else (case (if engine svc = None \<or> \<not> session_maker svc then build_engine svc w
                  else (None, svc, w)) of
              (Some e, svc1, w1) \<Rightarrow> (Inl e, svc1, w1)
            | (None, svc1, w1) \<Rightarrow>
                (case next_outcome (session_script w1) of
                   (Some e, rest) \<Rightarrow> (Inl e, svc1, w1\<lparr>session_script := rest\<rparr>)
                 | (None, rest) \<Rightarrow>
                     (Inr (), svc1,
                      w1\<lparr>session_script := rest, next_id := Suc (next_id w1),
                         session_ctx := (session_ctx w1)
                           (t := Some \<lparr>session_id = next_id w1, session_bind = engine svc1\<rparr>)\<rparr>))))"

definition is_connected :: "sql_service \<Rightarrow> task \<Rightarrow> db_world \<Rightarrow> bool" where
  "is_connected svc t w = (get_session svc t w \<noteq> None)"

text \<open>
  \<^verbatim>\<open>disconnect_session\<close>: the slot is cleared by the statement after
  \<^verbatim>\<open>await session.close()\<close>, so an exception of the close leaves the session in the slot
  and reaches the caller.
\<close>

definition disconnect_session :: "sql_service \<Rightarrow> task \<Rightarrow> db_world \<Rightarrow> (exn + unit) \<times> sql_service \<times> db_world" where
  "disconnect_session svc t w =
     (case session_ctx w t of
        None \<Rightarrow> (Inr (), svc, w)
      | Some s \<Rightarrow>
          (case next_outcome (close_script w) of
             (Some e, rest) \<Rightarrow> (Inl e, svc, w\<lparr>close_script := rest\<rparr>)
           | (None, rest) \<Rightarrow>
               (Inr (), svc,
                w\<lparr>close_script := rest,
                  closed_sessions := session_id s # closed_sessions w,
                  session_ctx := (session_ctx w)(t := None)\<rparr>)))"


text \<open>
  \<^verbatim>\<open>__aenter__\<close> is inherited and does nothing; \<^verbatim>\<open>__aexit__\<close> ignores the exception
  information of the block it closes (\<open>None\<close> for a normal exit) and awaits
  \<^verbatim>\<open>disconnect_session\<close>, whose exception it lets through.
\<close>

definition aenter :: "sql_service \<Rightarrow> task \<Rightarrow> db_world \<Rightarrow> (exn + unit) \<times> sql_service \<times> db_world" where
  "aenter svc t w = (Inr (), svc, w)"


subsection \<open>Retried operations\<close>

definition should_retry_on_exception :: "exn \<Rightarrow> bool" where
  "should_retry_on_exception e =
     (if isinstance e OperationalError \<or> isinstance e OSError then True
      else if isinstance e DBAPIError
              \<and> (contains_substr ''DuplicatePreparedStatementError'' (str_of_exn e)
                 \<or> contains_substr ''InvalidSQLStatementNameError'' (str_of_exn e))
           then True
      else False)"

definition retry_on_db_errors :: "('s \<Rightarrow> (exn + 'a) \<times> 's) \<Rightarrow> 's \<Rightarrow> ((exn + 'a) \<times> 's) \<times> (exn \<times> nat) list" where
  "retry_on_db_errors body s = tenacity_retry 5 should_retry_on_exception True body s"

datatype query = SqlText string | ClauseElement string | NotAQuery

datatype db_op =
    Execute query bool
  | Add | AddAll | Delete | Commit | Rollback | Refresh

datatype db_value = NoValue | ResultOf query

text \<open>A method call on the session: the next outcome of the query script.\<close>

definition session_call :: "db_world \<Rightarrow> exn option \<times> db_world" where
  "session_call w =
     (case next_outcome (query_script w) of (r, rest) \<Rightarrow> (r, w\<lparr>query_script := rest\<rparr>))"

text \<open>
  The undecorated body of each operation: connect, then the session's method; \<^verbatim>\<open>execute\<close>
  rejects a query that is neither a string nor a clause and commits when \<open>auto_commit\<close> is
  set.
\<close>

fun session_method :: "db_op \<Rightarrow> db_world \<Rightarrow> (exn + db_value) \<times> db_world" where
  "session_method (Execute NotAQuery auto_commit) w =
     (Inl (Raised TypeError ''Query must be a SQL string or SQLAlchemy ClauseElement''), w)"
| "session_method (Execute q auto_commit) w =
     (case session_call w of
        (Some e, w1) \<Rightarrow> (Inl e, w1)
      | (None, w1) \<Rightarrow>
          if auto_commit
          then (case session_call w1 of
                  (Some e, w2) \<Rightarrow> (Inl e, w2)
                | (None, w2) \<Rightarrow> (Inr (ResultOf q), w2))
          else (Inr (ResultOf q), w1))"
| "session_method other w =
     (case session_call w of
        (Some e, w1) \<Rightarrow> (Inl e, w1)
      | (None, w1) \<Rightarrow> (Inr NoValue, w1))"

definition db_attempt ::
  "db_op \<Rightarrow> task \<Rightarrow> sql_service \<times> db_world \<Rightarrow> (exn + db_value) \<times> (sql_service \<times> db_world)" where
  "db_attempt oper t sw =
     (case connect (fst sw) t (snd sw) of
        (Inl e, svc1, w1) \<Rightarrow> (Inl e, (svc1, w1))
      | (Inr u, svc1, w1) \<Rightarrow>
          (case session_method oper w1 of (r, w2) \<Rightarrow> (r, (svc1, w2))))"

definition db_call ::
  "db_op \<Rightarrow> task \<Rightarrow> sql_service \<times> db_world
     \<Rightarrow> ((exn + db_value) \<times> (sql_service \<times> db_world)) \<times> (exn \<times> nat) list" where
  "db_call oper t sw = retry_on_db_errors (db_attempt oper t) sw"

text \<open>
  The attempts of an operation one after the other: the instance and the world after the
  first \<open>k\<close> attempts, and the outcome of attempt number \<open>k + 1\<close>.
\<close>

definition state_after :: "db_op \<Rightarrow> task \<Rightarrow> nat \<Rightarrow> sql_service \<times> db_world \<Rightarrow> sql_service \<times> db_world" where
  "state_after oper t k sw = ((\<lambda>s. snd (db_attempt oper t s)) ^^ k) sw"

definition nth_attempt :: "db_op \<Rightarrow> task \<Rightarrow> nat \<Rightarrow> sql_service \<times> db_world \<Rightarrow> exn + db_value" where
  "nth_attempt oper t k sw = fst (db_attempt oper t (state_after oper t k sw))"

text \<open>
  The transient errors as the specification words them: connection errors (the driver's
  \<open>OperationalError\<close>) and operating-system errors, and the prepared-statement protocol
  errors of pgbouncer, which arrive as a \<open>DBAPIError\<close> whose message names
  \<open>DuplicatePreparedStatementError\<close> or \<open>InvalidSQLStatementNameError\<close>.
\<close>

fun transient_error :: "exn \<Rightarrow> bool" where
  "transient_error (Raised c m) =
     (subclass_of c OperationalError \<or> subclass_of c OSError
      \<or> (subclass_of c DBAPIError
          \<and> (contains_substr ''DuplicatePreparedStatementError'' m
              \<or> contains_substr ''InvalidSQLStatementNameError'' m)))"
| "transient_error (RetryError e) = False"

subsection \<open>Calls made on one instance during its lifetime\<close>





section \<open>Example configurations\<close>



definition pg_service :: sql_service where
  "pg_service = \<lparr>url = ''postgresql+asyncpg://app@db:5432/main'', engine = None,
                  session_maker = False,
                  engine_args = [''pool_size'' \<mapsto> IntArg 5, ''max_overflow'' \<mapsto> IntArg 0,
                                 ''pool_pre_ping'' \<mapsto> BoolArg True,
                                 ''pool_recycle'' \<mapsto> IntArg 900],
                  connect_args = [''prepared_statement_name_func'' \<mapsto> FuncArg ''_get_prepared_stmt_name'',
                                  ''statement_cache_size'' \<mapsto> IntArg 0,
                                  ''prepared_statement_cache_size'' \<mapsto> IntArg 0],
                  async_creator_func = None\<rparr>"

definition fresh_db :: db_world where
  "fresh_db = \<lparr>session_ctx = (\<lambda>t. None), engine_script = [], session_script = [],
                query_script = [], close_script = [], dispose_script = [],
                next_id = 0, engines_built = 0, closed_sessions = [],
                disposed_engines = []\<rparr>"

definition failing_db :: db_world where
  "failing_db = fresh_db\<lparr>query_script :=
      [Some (Raised OperationalError ''connection lost 1''),
       Some (Raised OSError ''connection lost 2''),
       Some (Raised DBAPIError ''DuplicatePreparedStatementError 3''),
       Some (Raised OperationalError ''connection lost 4''),
       Some (Raised OperationalError ''connection lost 5'')]\<rparr>"
text \<open>The instance and the world after a first successful \<^verbatim>\<open>connect\<close> in task 0.\<close>

definition pg_connected :: sql_service where
  "pg_connected = fst (snd (connect pg_service 0 fresh_db))"

definition db_connected :: db_world where
  "db_connected = snd (snd (connect pg_service 0 fresh_db))"



text \<open>A second instance, for another database.\<close>

definition reporting_service :: sql_service where
  "reporting_service = pg_service\<lparr>url := ''postgresql+asyncpg://app@reports:5432/dwh''\<rparr>"

text \<open>
  Engines in hand: those built so far, and one more if the next \<^verbatim>\<open>connect\<close> without a
  session has to build one.  \<open>is_disconnect\<close> tells the full disconnects among the calls.
\<close>

definition builds_left :: "sql_service \<Rightarrow> nat" where
  "builds_left svc = (if engine svc = None \<or> \<not> session_maker svc then 1 else 0)"

definition engine_budget :: "nat \<Rightarrow> sql_service \<times> db_world \<Rightarrow> bool" where
  "engine_budget c sw = (engines_built (snd sw) + builds_left (fst sw) \<le> c)"


section \<open>Histories of a local store\<close>

text \<open>
  A request to \<^verbatim>\<open>upload_file_with_id\<close> with the operating system's behaviour during it, and
  the store after a sequence of them; exceptions reach the callers, the store stays as the
  call left it.
\<close>

record upload_request =
  req_id :: string
  req_file :: "byte list"
  req_extension :: "string option"
  req_env :: local_env

fun run_uploads :: "local_service \<Rightarrow> upload_request list \<Rightarrow> filesystem \<Rightarrow> filesystem" where
  "run_uploads svc [] fs = fs"
| "run_uploads svc (u # us) fs =
     run_uploads svc us
       (snd (local_upload_file_with_id svc (req_env u) (req_id u) (req_file u)
               (req_extension u) fs))"

text \<open>
  The path an upload writes to, and the locations it may create: those that the path and
  the paths above it spell, once their double-dot segments are cancelled.
\<close>

definition target :: "local_service \<Rightarrow> upload_request \<Rightarrow> path" where
  "target svc u = joinpath (root_path svc) (get_storage_path (req_id u) (req_extension u))"

fun lexical :: "location \<Rightarrow> string list \<Rightarrow> location" where
  "lexical cur [] = cur"
| "lexical cur (c # cs) = lexical (if c = ''..'' then butlast cur else cur @ [c]) cs"

definition spelled :: "local_env \<Rightarrow> path \<Rightarrow> location" where
  "spelled env p = lexical (start env p) (parts p)"

definition touched :: "local_env \<Rightarrow> path \<Rightarrow> location list" where
  "touched env p =
     map (\<lambda>k. lexical (start env p) (take k (parts p))) [1..<Suc (length (parts p))]"

definition test_upload :: upload_request where
  "test_upload = \<lparr>req_id = ''2d282102fa671256327d4767ec23bc6b'', req_file = test_blob,
                   req_extension = Some ''txt'', req_env = no_faults\<rparr>"
section \<open>Example backends\<close>

definition test_id :: string where
  "test_id = ''2d282102fa671256327d4767ec23bc6b''"

definition sftp_test_service :: sftp_service where
  "sftp_test_service = \<lparr>sftp_host = ''files.example.org'', sftp_port = 22,
                         sftp_root_path = Path ''/'' [''uploads'']\<rparr>"

definition handshake_timeout :: exn where
  "handshake_timeout = Raised SSHException ''Error reading SSH protocol banner''"

text \<open>A server whose handshake fails four times, and one whose handshake keeps failing.\<close>

definition sftp_flaky :: sftp_world where
  "sftp_flaky = \<lparr>sftp_client = None,
                  transport_script = [Some handshake_timeout, Some handshake_timeout,
                                      Some handshake_timeout, Some handshake_timeout],
                  remote_files = Map.empty, sftp_io_raises = None\<rparr>"

definition sftp_down :: sftp_world where
  "sftp_down = sftp_flaky\<lparr>transport_script :=
      [Some handshake_timeout, Some handshake_timeout, Some handshake_timeout,
       Some handshake_timeout, Some handshake_timeout]\<rparr>"

definition gcs_test_service :: gcs_service where
  "gcs_test_service = \<lparr>gcs_bucket_name = ''media'', gcs_project_id = ''demo'',
                        gcs_root_path = Path [] []\<rparr>"

definition credentials_error :: exn where
  "credentials_error = Raised Exception ''DefaultCredentialsError''"

definition gcs_flaky :: gcs_world where
  "gcs_flaky = \<lparr>gcs_client = False, gcs_bucket = False,
                 client_script = [Some credentials_error, Some credentials_error,
                                  Some credentials_error, Some credentials_error],
                 gcs_objects = Map.empty, blob_exists_raises = None,
                 upload_from_string_raises = None\<rparr>"

text \<open>A bucket that already holds the test blob, reached through a client that cannot be built.\<close>

definition gcs_down_with_blob :: gcs_world where
  "gcs_down_with_blob = gcs_flaky\<lparr>
      client_script := [Some credentials_error, Some credentials_error, Some credentials_error,
                        Some credentials_error, Some credentials_error],
      gcs_objects := [''2d2/821/2d282102fa671256327d4767ec23bc6b.txt'' \<mapsto> test_blob]\<rparr>"

definition s3_test_service :: s3_service where
  "s3_test_service = \<lparr>s3_bucket_name = ''media'', s3_endpoint_url = ''https://s3.example.org'',
                       s3_root_path = Path [] []\<rparr>"

definition endpoint_error :: exn where
  "endpoint_error = Raised BotoCoreError ''EndpointConnectionError''"

definition s3_flaky :: s3_world where
  "s3_flaky = \<lparr>s3_session = False,
                s3_client_script = [Some endpoint_error, Some endpoint_error,
                                    Some endpoint_error, Some endpoint_error],
                s3_objects = [], list_objects_raises = None, put_object_raises = None\<rparr>"

text \<open>A local disk that fills up during the write, after 5 bytes.\<close>

definition disk_full :: local_env where
  "disk_full = no_faults\<lparr>write_raises := Some (Raised OSError ''No space left on device'', 5)\<rparr>"
text \<open>Stores that already hold the test blob at its storage path, behind working connections.\<close>

definition stored_fs :: filesystem where
  "stored_fs = run_uploads tmp_service [test_upload] Map.empty"

definition s3_with_blob :: s3_world where
  "s3_with_blob = s3_flaky\<lparr>
      s3_objects := [(''2d2/821/2d282102fa671256327d4767ec23bc6b.txt'', test_blob)]\<rparr>"

definition gcs_with_blob :: gcs_world where
  "gcs_with_blob = gcs_down_with_blob\<lparr>client_script := []\<rparr>"

definition sftp_with_file :: sftp_world where
  "sftp_with_file = sftp_flaky\<lparr>
      remote_files := [''/uploads/2d2/821/2d282102fa671256327d4767ec23bc6b.txt'' \<mapsto> File test_blob]\<rparr>"

text \<open>An object store whose \<^verbatim>\<open>put_object\<close> is refused.\<close>

definition s3_denied :: s3_world where
  "s3_denied = s3_flaky\<lparr>put_object_raises := Some (Raised ClientError ''AccessDenied'')\<rparr>"

section \<open>Verified properties\<close>

subsection \<open>Content addresser\<close>

lemma length_hexdigest: "length (hexdigest bs) = 2 * length bs"
  by (induction bs) (simp_all add: hexdigest_def hex_of_byte_def)

lemma hex_digit_is_hex: "is_hex_char (hex_digit n)"
proof -
  have "n mod 16 < length ''0123456789abcdef''" by simp
  then have "''0123456789abcdef'' ! (n mod 16) \<in> set ''0123456789abcdef''"
    by (rule nth_mem)
  then show ?thesis by (simp only: is_hex_char_def hex_digit_def)
qed

lemma hexdigest_is_hex: "list_all is_hex_char (hexdigest bs)"
  by (induction bs) (simp_all add: hexdigest_def hex_of_byte_def hex_digit_is_hex)

lemma length_md5_digest: "length (md5_digest msg) = 16"
  by (simp add: md5_digest_def Let_def le_bytes32_def split: prod.splits)

lemma compute_file_id_shape:
  "length (compute_file_id file) = 32 \<and> list_all is_hex_char (compute_file_id file)"
  by (simp add: compute_file_id_def length_hexdigest length_md5_digest hexdigest_is_hex)

lemma storage_path_str_spec:
  "extension \<noteq> Some [] \<Longrightarrow>
     storage_path_str file_id extension = spec_storage_path_str file_id extension"
  by (cases extension) (simp_all add: storage_path_str_def spec_storage_path_str_def)

lemma test_blob_id: "compute_file_id test_blob = ''2d282102fa671256327d4767ec23bc6b''"
  by code_simp

text \<open>
  C4, as stated, fails for the empty extension: it is an extension that is present, yet
  \<^verbatim>\<open>if extension:\<close> treats it as absent and adds no dot.
\<close>

theorem storage_path_empty_extension_counterexample:
  "get_storage_path ''abcdef'' (Some '''')
     \<noteq> parse_path (spec_storage_path_str ''abcdef'' (Some ''''))"
  by (simp add: get_storage_path_def storage_path_str_def spec_storage_path_str_def
      parse_path_def lstrip_def)

text \<open>
  C4 (amended): \<^verbatim>\<open>compute_file_id\<close> and \<^verbatim>\<open>get_storage_path\<close> are total functions of their
  arguments.  The identifier of any byte sequence is 32 lower-case hexadecimal digits
  (128 bits).  For every identifier and every extension other than the empty string, the
  storage path is the path spelt \<^verbatim>\<open>id[0:3]/id[3:6]/id\<close> followed by a dot and the extension
  without its leading dots when an extension is given, and by nothing when it is \<open>None\<close>;
  the empty extension gives the same path as \<open>None\<close>.
\<close>

theorem content_addresser_pure:
  "length (compute_file_id file) = 32 \<and> list_all is_hex_char (compute_file_id file)
   \<and> (extension \<noteq> Some [] \<longrightarrow>
        get_storage_path file_id extension
          = parse_path (spec_storage_path_str file_id extension))
   \<and> get_storage_path file_id (Some []) = get_storage_path file_id None"
proof -
  have a: "extension \<noteq> Some [] \<longrightarrow>
        get_storage_path file_id extension = parse_path (spec_storage_path_str file_id extension)"
    by (simp add: get_storage_path_def storage_path_str_spec)
  have b: "get_storage_path file_id (Some []) = get_storage_path file_id None"
    by (simp add: get_storage_path_def storage_path_str_def)
  from compute_file_id_shape [of "file"] a b show ?thesis by blast
qed

theorem content_addresser_pure_witness:
  "length (compute_file_id test_blob) = 32 \<and> list_all is_hex_char (compute_file_id test_blob)
   \<and> Some ''.txt'' \<noteq> Some []
   \<and> get_storage_path ''abcdef123456'' (Some ''.txt'')
       = Path [] [''abc'', ''def'', ''abcdef123456.txt'']
   \<and> get_storage_path ''abcdef123456'' (Some []) = get_storage_path ''abcdef123456'' None"
  using content_addresser_pure [of test_blob "Some ''.txt''" "''abcdef123456''"]
  by (simp add: spec_storage_path_str_def parse_path_def lstrip_def)

subsection \<open>Upload through the base class\<close>

lemma upload_file_never_True: "fst (upload_file up file extension s) \<noteq> Inr (PyBool True)"
  by (simp add: upload_file_def split: prod.splits sum.splits)


text \<open>
  C1: \<^verbatim>\<open>upload_file\<close> computes the identifier with \<^verbatim>\<open>compute_file_id\<close> and calls
  \<^verbatim>\<open>upload_file_with_id\<close> with it, but it does not hand the result back.  Uploading the
  21-byte blob with extension \<open>txt\<close> to a local backend rooted at an empty directory writes
  the file at \<^verbatim>\<open>2d2/821/2d282102fa671256327d4767ec23bc6b.txt\<close> below the root, the inner
  call returns \<open>True\<close>, and \<^verbatim>\<open>upload_file\<close> returns \<open>None\<close>.
\<close>

theorem upload_file_fresh_local_returns_None:
  "fst (local_upload_file_with_id tmp_service no_faults (compute_file_id test_blob) test_blob
          (Some ''txt'') Map.empty) = Inr True
   \<and> fst (upload_file (local_upload_file_with_id tmp_service no_faults) test_blob
            (Some ''txt'') Map.empty) = Inr PyNone
   \<and> snd (upload_file (local_upload_file_with_id tmp_service no_faults) test_blob
            (Some ''txt'') Map.empty)
        [''tmp'', ''store'', ''2d2'', ''821'', ''2d282102fa671256327d4767ec23bc6b.txt'']
       = Some (File test_blob)"
  by code_simp


subsection \<open>The retry loop\<close>

lemma attempts_length: "length (snd (attempts l n ri rr body s)) \<le> l"
proof (induction l arbitrary: n s)
  case 0
  show ?case by (auto split: prod.splits sum.splits)
next
  case (Suc l)
  obtain r s' where b: "body s = (r, s')" by (cases "body s") blast
  obtain r2 rt where a: "attempts l (Suc n) ri rr body s' = (r2, rt)"
    by (cases "attempts l (Suc n) ri rr body s'") blast
  from Suc.IH [of "Suc n" s'] a have "length rt \<le> l" by simp
  with a b show ?case by (cases r) simp_all
qed

lemma attempts_retried: "list_all (\<lambda>ew. ri (fst ew)) (snd (attempts l n ri rr body s))"
proof (induction l arbitrary: n s)
  case 0
  show ?case by (auto split: prod.splits sum.splits)
next
  case (Suc l)
  obtain r s' where b: "body s = (r, s')" by (cases "body s") blast
  obtain r2 rt where a: "attempts l (Suc n) ri rr body s' = (r2, rt)"
    by (cases "attempts l (Suc n) ri rr body s'") blast
  from Suc.IH [of "Suc n" s'] a have "list_all (\<lambda>ew. ri (fst ew)) rt" by simp
  with a b show ?case by (cases r) simp_all
qed

lemma attempts_waits:
  "map snd (snd (attempts l n ri rr body s))
     = map wait_exponential [n..<n + length (snd (attempts l n ri rr body s))]"
proof (induction l arbitrary: n s)
  case 0
  show ?case by (auto split: prod.splits sum.splits)
next
  case (Suc l)
  obtain r s' where b: "body s = (r, s')" by (cases "body s") blast
  obtain r2 rt where a: "attempts l (Suc n) ri rr body s' = (r2, rt)"
    by (cases "attempts l (Suc n) ri rr body s'") blast
  from Suc.IH [of "Suc n" s'] a
  have "map snd rt = map wait_exponential [Suc n..<Suc n + length rt]" by simp
  with a b show ?case by (cases r) (simp_all add: upt_rec [of n])
qed

lemma attempts_last: "\<exists>s0. body s0 = fst (attempts l n ri True body s)"
proof (induction l arbitrary: n s)
  case 0
  obtain r s' where b: "body s = (r, s')" by (cases "body s") blast
  then have "body s = fst (attempts 0 n ri True body s)" by (cases r) simp_all
  then show ?case ..
next
  case (Suc l)
  obtain r s' where b: "body s = (r, s')" by (cases "body s") blast
  obtain r2 rt where a: "attempts l (Suc n) ri True body s' = (r2, rt)"
    by (cases "attempts l (Suc n) ri True body s'") blast
  from Suc.IH [of "Suc n" s'] a obtain s1 where s1: "body s1 = r2" by auto
  show ?case
  proof (cases r)
    case (Inl e)
    show ?thesis
    proof (cases "ri e")
      case True
      with Inl a b s1 have "body s1 = fst (attempts (Suc l) n ri True body s)" by simp
      then show ?thesis ..
    next
      case False
      with Inl b have "body s = fst (attempts (Suc l) n ri True body s)" by simp
      then show ?thesis ..
    qed
  next
    case (Inr v)
    with b have "body s = fst (attempts (Suc l) n ri True body s)" by simp
    then show ?thesis ..
  qed
qed

lemma attempts_exhausted:
  "fst (fst (attempts l n ri True body s)) = Inl e \<Longrightarrow> ri e \<Longrightarrow>
     length (snd (attempts l n ri True body s)) = l"
proof (induction l arbitrary: n s)
  case 0
  show ?case using attempts_length [of 0 n ri True body s] by simp
next
  case (Suc l)
  obtain r s' where b: "body s = (r, s')" by (cases "body s") blast
  obtain r2 rt where a: "attempts l (Suc n) ri True body s' = (r2, rt)"
    by (cases "attempts l (Suc n) ri True body s'") blast
  show ?case
  proof (cases r)
    case (Inl e')
    show ?thesis
    proof (cases "ri e'")
      case True
      with Inl a b Suc.prems(1) have "fst r2 = Inl e" by simp
      with Suc.IH [of "Suc n" s' ] a Suc.prems(2) have "length rt = l" by simp
      with Inl True a b show ?thesis by simp
    next
      case False
      with Inl b Suc.prems show ?thesis by simp
    qed
  next
    case (Inr v)
    with b Suc.prems show ?thesis by simp
  qed
qed

lemma waits_upto: "k \<le> 4 \<Longrightarrow> map wait_exponential [1..<1 + k] = take k [1, 2, 4, 8]"
proof -
  assume "k \<le> 4"
  then consider "k = 0" | "k = 1" | "k = 2" | "k = 3" | "k = 4" by linarith
  then show ?thesis
    by cases (simp_all add: wait_exponential_def upt_rec)
qed


lemma attempts_trace:
  "length (snd (attempts l n ri True body s)) \<le> l
   \<and> (\<forall>i<length (snd (attempts l n ri True body s)).
         \<exists>e. fst (body (((\<lambda>x. snd (body x)) ^^ i) s)) = Inl e \<and> ri e
              \<and> snd (attempts l n ri True body s) ! i = (e, wait_exponential (n + i)))
   \<and> fst (attempts l n ri True body s)
        = body (((\<lambda>x. snd (body x)) ^^ length (snd (attempts l n ri True body s))) s)
   \<and> (\<forall>e. fst (fst (attempts l n ri True body s)) = Inl e \<and> ri e
          \<longrightarrow> length (snd (attempts l n ri True body s)) = l)"
proof (induction l arbitrary: n s)
  case 0
  obtain r s' where b: "body s = (r, s')" by (cases "body s") blast
  then show ?case by (cases r) simp_all
next
  case (Suc l)
  obtain r s' where b: "body s = (r, s')" by (cases "body s") blast
  show ?case
  proof (cases r)
    case (Inr v)
    with b show ?thesis by simp
  next
    case (Inl e)
    show ?thesis
    proof (cases "ri e")
      case False
      with b Inl show ?thesis by simp
    next
      case True
      define a where "a = attempts l (Suc n) ri True body s'"
      obtain r2 rt where a2: "a = (r2, rt)" by (cases a) blast
      have eq: "attempts (Suc l) n ri True body s = (r2, (e, wait_exponential n) # rt)"
        using b Inl True a2 by (simp add: a_def)
      have s': "s' = snd (body s)" using b by simp
      have fp: "((\<lambda>x. snd (body x)) ^^ k) s' = ((\<lambda>x. snd (body x)) ^^ Suc k) s" for k
        unfolding s' using funpow_swap1 [of "\<lambda>x. snd (body x)" k s] by simp
      note ih = Suc.IH [of "Suc n" s', folded a_def, unfolded a2 fst_conv snd_conv fp]
      from ih have i1: "length rt \<le> l" by blast
      from ih have i2: "\<forall>i<length rt. \<exists>e. fst (body (((\<lambda>x. snd (body x)) ^^ Suc i) s)) = Inl e
          \<and> ri e \<and> rt ! i = (e, wait_exponential (Suc n + i))" by blast
      from ih have i3: "r2 = body (((\<lambda>x. snd (body x)) ^^ Suc (length rt)) s)" by blast
      from ih have i4: "\<forall>e. fst r2 = Inl e \<and> ri e \<longrightarrow> length rt = l" by blast
      have c2: "\<exists>e'. fst (body (((\<lambda>x. snd (body x)) ^^ i) s)) = Inl e' \<and> ri e'
            \<and> ((e, wait_exponential n) # rt) ! i = (e', wait_exponential (n + i))"
        if "i < Suc (length rt)" for i
      proof (cases i)
        case 0
        with b Inl True show ?thesis by simp
      next
        case (Suc j)
        with that have "j < length rt" by simp
        with i2 Suc show ?thesis by simp
      qed
      have g1: "length ((e, wait_exponential n) # rt) \<le> Suc l" using i1 by simp
      have g2: "\<forall>i<length ((e, wait_exponential n) # rt).
          \<exists>e'. fst (body (((\<lambda>x. snd (body x)) ^^ i) s)) = Inl e' \<and> ri e'
            \<and> ((e, wait_exponential n) # rt) ! i = (e', wait_exponential (n + i))"
        unfolding length_Cons using c2 by blast
      have g3: "r2 = body (((\<lambda>x. snd (body x)) ^^ length ((e, wait_exponential n) # rt)) s)"
        unfolding length_Cons by (rule i3)
      have g4: "\<forall>e'. fst r2 = Inl e' \<and> ri e' \<longrightarrow> length ((e, wait_exponential n) # rt) = Suc l"
        unfolding length_Cons using i4 by blast
      show ?thesis unfolding eq fst_conv snd_conv using g1 g2 g3 g4 by (intro conjI)
    qed
  qed
qed


subsection \<open>Database operations\<close>

lemma should_retry_is_transient: "should_retry_on_exception e = transient_error e"
  by (cases e) (auto simp: should_retry_on_exception_def)

lemma db_call_trace:
  "length (snd (db_call oper t sw)) \<le> 4
   \<and> (\<forall>i<length (snd (db_call oper t sw)).
         \<exists>e. nth_attempt oper t i sw = Inl e \<and> transient_error e
              \<and> snd (db_call oper t sw) ! i = (e, wait_exponential (1 + i)))
   \<and> fst (db_call oper t sw)
        = db_attempt oper t (state_after oper t (length (snd (db_call oper t sw))) sw)
   \<and> (\<forall>e. fst (fst (db_call oper t sw)) = Inl e \<and> transient_error e
          \<longrightarrow> length (snd (db_call oper t sw)) = 4)"
proof -
  have "(5::nat) - 1 = 4" by simp
  moreover have "should_retry_on_exception = transient_error"
    by (rule ext) (rule should_retry_is_transient)
  ultimately
  have eq: "db_call oper t sw = attempts 4 1 transient_error True (db_attempt oper t) sw"
    by (simp only: db_call_def retry_on_db_errors_def tenacity_retry_def)
  show ?thesis
    unfolding eq nth_attempt_def state_after_def
    by (rule attempts_trace)
qed

lemma wait_exponential_values:
  "i < 4 \<Longrightarrow> wait_exponential (1 + i) = [1, 2, 4, 8] ! i"
proof -
  assume "i < 4"
  then consider "i = 0" | "i = 1" | "i = 2" | "i = 3" by linarith
  then show ?thesis
    by cases (simp_all add: wait_exponential_def)
qed


text \<open>
  C5: every decorated database operation (\<^verbatim>\<open>execute\<close>, \<^verbatim>\<open>add\<close>, \<^verbatim>\<open>add_all\<close>,
  \<^verbatim>\<open>delete\<close>, \<^verbatim>\<open>commit\<close>, \<^verbatim>\<open>rollback\<close>, \<^verbatim>\<open>refresh\<close>) makes at most five attempts.
  Each retried attempt raised a transient error (a connection or operating-system error, or
  a prepared-statement protocol error of pgbouncer) and was followed by a sleep of 1, 2, 4
  and 8 seconds in turn.  What the caller gets is the outcome of the attempt after the last
  retry, as it is: its value, or its exception, never a wrapper and never a boolean.  The
  loop stops before the fifth attempt only on a value or on an error that is not transient:
  when all five attempts raise transient errors the fifth one's error is raised, and a first
  attempt that returns or raises an error that is not transient is the only attempt.
\<close>

theorem db_operations_retry_then_reraise:
  "length (snd (db_call oper t sw)) \<le> 4
   \<and> (\<forall>i<length (snd (db_call oper t sw)).
         \<exists>e. nth_attempt oper t i sw = Inl e \<and> transient_error e
              \<and> snd (db_call oper t sw) ! i = (e, [1, 2, 4, 8] ! i))
   \<and> fst (db_call oper t sw)
        = db_attempt oper t (state_after oper t (length (snd (db_call oper t sw))) sw)
   \<and> (\<forall>e. fst (fst (db_call oper t sw)) = Inl e \<and> transient_error e
          \<longrightarrow> length (snd (db_call oper t sw)) = 4)
   \<and> ((\<forall>i\<le>4. \<exists>e. nth_attempt oper t i sw = Inl e \<and> transient_error e) \<longrightarrow>
        length (snd (db_call oper t sw)) = 4
        \<and> fst (fst (db_call oper t sw)) = nth_attempt oper t 4 sw)
   \<and> (\<forall>e. nth_attempt oper t 0 sw = Inl e \<and> \<not> transient_error e \<longrightarrow>
        db_call oper t sw = (db_attempt oper t sw, []))
   \<and> (\<forall>v. nth_attempt oper t 0 sw = Inr v \<longrightarrow> db_call oper t sw = (db_attempt oper t sw, []))"
proof -
  define k where "k = length (snd (db_call oper t sw))"
  note tr = db_call_trace [of oper t sw, folded k_def]
  from tr have a: "k \<le> 4" by blast
  from tr have b0: "\<forall>i<k. \<exists>e. nth_attempt oper t i sw = Inl e \<and> transient_error e
      \<and> snd (db_call oper t sw) ! i = (e, wait_exponential (1 + i))" by blast
  have b: "\<forall>i<k. \<exists>e. nth_attempt oper t i sw = Inl e \<and> transient_error e
      \<and> snd (db_call oper t sw) ! i = (e, [1, 2, 4, 8] ! i)"
  proof (intro allI impI)
    fix i assume i: "i < k"
    with a have "i < 4" by simp
    from wait_exponential_values [OF this] b0 i show "\<exists>e. nth_attempt oper t i sw = Inl e
        \<and> transient_error e \<and> snd (db_call oper t sw) ! i = (e, [1, 2, 4, 8] ! i)"
      by metis
  qed
  from tr have c: "fst (db_call oper t sw) = db_attempt oper t (state_after oper t k sw)"
    by blast
  from tr have d: "\<forall>e. fst (fst (db_call oper t sw)) = Inl e \<and> transient_error e \<longrightarrow> k = 4"
    by blast
  from c have out: "fst (fst (db_call oper t sw)) = nth_attempt oper t k sw"
    by (simp add: nth_attempt_def)
  have e: "k = 4 \<and> fst (fst (db_call oper t sw)) = nth_attempt oper t 4 sw"
    if all: "\<forall>i\<le>4. \<exists>e. nth_attempt oper t i sw = Inl e \<and> transient_error e"
  proof -
    from all a obtain x where "nth_attempt oper t k sw = Inl x" "transient_error x" by blast
    with out d have "k = 4" by simp
    with out show ?thesis by simp
  qed
  have zero: "db_call oper t sw = (db_attempt oper t sw, [])" if "k = 0"
  proof -
    from that have "snd (db_call oper t sw) = []" by (simp add: k_def)
    moreover from that c have "fst (db_call oper t sw) = db_attempt oper t sw"
      by (simp add: state_after_def)
    ultimately show ?thesis by (simp add: prod_eq_iff)
  qed
  have f: "db_call oper t sw = (db_attempt oper t sw, [])"
    if "nth_attempt oper t 0 sw = Inl x" "\<not> transient_error x" for x
  proof -
    have "k = 0"
    proof (rule ccontr)
      assume "k \<noteq> 0"
      then have "0 < k" by simp
      with b0 that show False by auto
    qed
    then show ?thesis by (rule zero)
  qed
  have g: "db_call oper t sw = (db_attempt oper t sw, [])"
    if "nth_attempt oper t 0 sw = Inr v" for v
  proof -
    have "k = 0"
    proof (rule ccontr)
      assume "k \<noteq> 0"
      then have "0 < k" by simp
      with b0 that show False by auto
    qed
    then show ?thesis by (rule zero)
  qed
  from a b c d e f g show ?thesis unfolding k_def by blast
qed

lemma failing_commit_attempts:
  "nth_attempt Commit 0 0 (pg_service, failing_db) = Inl (Raised OperationalError ''connection lost 1'')
   \<and> nth_attempt Commit 0 1 (pg_service, failing_db) = Inl (Raised OSError ''connection lost 2'')
   \<and> nth_attempt Commit 0 2 (pg_service, failing_db)
        = Inl (Raised DBAPIError ''DuplicatePreparedStatementError 3'')
   \<and> nth_attempt Commit 0 3 (pg_service, failing_db) = Inl (Raised OperationalError ''connection lost 4'')
   \<and> nth_attempt Commit 0 4 (pg_service, failing_db) = Inl (Raised OperationalError ''connection lost 5'')"
  by code_simp

lemma failing_commit_transient:
  "transient_error (Raised OperationalError ''connection lost 1'')
   \<and> transient_error (Raised OSError ''connection lost 2'')
   \<and> transient_error (Raised DBAPIError ''DuplicatePreparedStatementError 3'')
   \<and> transient_error (Raised OperationalError ''connection lost 4'')
   \<and> transient_error (Raised OperationalError ''connection lost 5'')"
  by code_simp

lemma failing_commit_all:
  "\<forall>i\<le>4. \<exists>e. nth_attempt Commit 0 i (pg_service, failing_db) = Inl e \<and> transient_error e"
proof (intro allI impI)
  fix i :: nat assume "i \<le> 4"
  then consider "i = 0" | "i = 1" | "i = 2" | "i = 3" | "i = 4" by linarith
  then show "\<exists>e. nth_attempt Commit 0 i (pg_service, failing_db) = Inl e \<and> transient_error e"
    using failing_commit_attempts failing_commit_transient by cases blast+
qed

lemma type_error_attempt:
  "nth_attempt (Execute NotAQuery False) 0 0 (pg_service, fresh_db)
     = Inl (Raised TypeError ''Query must be a SQL string or SQLAlchemy ClauseElement'')
   \<and> \<not> transient_error (Raised TypeError ''Query must be a SQL string or SQLAlchemy ClauseElement'')
   \<and> \<not> transient_error (Raised DBAPIError ''syntax error at or near SELEC'')"
  by code_simp

theorem db_operations_retry_then_reraise_witness:
  "nth_attempt Commit 0 0 (pg_service, failing_db) = Inl (Raised OperationalError ''connection lost 1'')
   \<and> nth_attempt Commit 0 4 (pg_service, failing_db) = Inl (Raised OperationalError ''connection lost 5'')
   \<and> transient_error (Raised OperationalError ''connection lost 5'')
   \<and> length (snd (db_call Commit 0 (pg_service, failing_db))) = 4
   \<and> fst (fst (db_call Commit 0 (pg_service, failing_db)))
        = Inl (Raised OperationalError ''connection lost 5'')
   \<and> nth_attempt (Execute NotAQuery False) 0 0 (pg_service, fresh_db)
        = Inl (Raised TypeError ''Query must be a SQL string or SQLAlchemy ClauseElement'')
   \<and> \<not> transient_error (Raised TypeError ''Query must be a SQL string or SQLAlchemy ClauseElement'')
   \<and> snd (db_call (Execute NotAQuery False) 0 (pg_service, fresh_db)) = []
   \<and> fst (fst (db_call (Execute NotAQuery False) 0 (pg_service, fresh_db)))
        = Inl (Raised TypeError ''Query must be a SQL string or SQLAlchemy ClauseElement'')"
proof -
  note a = db_operations_retry_then_reraise [of Commit 0 "(pg_service, failing_db)"]
  note b = db_operations_retry_then_reraise [of "Execute NotAQuery False" 0 "(pg_service, fresh_db)"]
  from a failing_commit_all
  have 1: "length (snd (db_call Commit 0 (pg_service, failing_db))) = 4
      \<and> fst (fst (db_call Commit 0 (pg_service, failing_db)))
          = nth_attempt Commit 0 4 (pg_service, failing_db)"
    by blast
  from b type_error_attempt
  have 2: "db_call (Execute NotAQuery False) 0 (pg_service, fresh_db)
      = (db_attempt (Execute NotAQuery False) 0 (pg_service, fresh_db), [])"
    by blast
  have 3: "fst (db_attempt (Execute NotAQuery False) 0 (pg_service, fresh_db))
      = Inl (Raised TypeError ''Query must be a SQL string or SQLAlchemy ClauseElement'')"
    using type_error_attempt by (simp add: nth_attempt_def state_after_def)
  from 1 2 3 failing_commit_attempts failing_commit_transient type_error_attempt
  show ?thesis by simp
qed


subsection \<open>Session lifecycle\<close>

lemma connect_noop: "get_session svc t w \<noteq> None \<Longrightarrow> connect svc t w = (Inr (), svc, w)"
  by (simp add: connect_def)

lemma connect_sets_slot:
  "connect svc t w = (Inr (), svc', w') \<Longrightarrow> get_session svc' t w' \<noteq> None"
  by (auto simp: connect_def get_session_def build_engine_def Let_def
      split: if_splits prod.splits option.splits)







lemma disconnect_session_instance: "fst (snd (disconnect_session svc t w)) = svc"
  by (auto simp: disconnect_session_def split: option.splits prod.splits)










lemma engine_budget_mono: "engine_budget c sw \<Longrightarrow> c \<le> d \<Longrightarrow> engine_budget d sw"
  by (simp add: engine_budget_def)











lemma first_connect: "fst (connect pg_service 0 fresh_db) = Inr ()"
  by (simp add: connect_def get_session_def pg_service_def fresh_db_def build_engine_def)

lemma first_connect_eq: "connect pg_service 0 fresh_db = (Inr (), pg_connected, db_connected)"
  using first_connect by (simp add: pg_connected_def db_connected_def prod_eq_iff)









lemma connect_binds_session:
  "get_session svc t w = None \<Longrightarrow> connect svc t w = (Inr (), svc', w') \<Longrightarrow>
     \<exists>s. session_ctx w' t = Some s \<and> session_bind s = engine svc' \<and> engine svc' \<noteq> None"
  by (auto simp: connect_def get_session_def build_engine_def Let_def
      split: if_splits prod.splits option.splits)

lemma connect_other_tasks:
  "t' \<noteq> t \<Longrightarrow> session_ctx (snd (snd (connect svc t w))) t' = session_ctx w t'"
  by (auto simp: connect_def get_session_def build_engine_def Let_def
      split: if_splits prod.splits option.splits)

text \<open>
  C10: the session slot belongs to the task, not to the instance.  \<^verbatim>\<open>get_session\<close> gives
  the same answer on every instance; once an instance \<open>a\<close> has connected in a task,
  \<^verbatim>\<open>connect\<close> on any other instance \<open>b\<close> in that task changes nothing and
  \<^verbatim>\<open>get_session\<close> on \<open>b\<close> returns the session bound to the engine of \<open>a\<close>; the slots of
  other tasks are unaffected.
\<close>

theorem session_slot_shared_between_instances:
  "get_session a t w = get_session b t w
   \<and> (get_session a t w = None \<and> connect a t w = (Inr (), a', w') \<longrightarrow>
        connect b t w' = (Inr (), b, w')
        \<and> get_session b t w' = get_session a' t w'
        \<and> (\<exists>s. get_session b t w' = Some s \<and> session_bind s = engine a' \<and> engine a' \<noteq> None)
        \<and> (\<forall>t'. t' \<noteq> t \<longrightarrow> get_session b t' w' = get_session b t' w))"
proof -
  have same: "get_session a t w = get_session b t w" by (simp add: get_session_def)
  have "connect b t w' = (Inr (), b, w')
        \<and> get_session b t w' = get_session a' t w'
        \<and> (\<exists>s. get_session b t w' = Some s \<and> session_bind s = engine a' \<and> engine a' \<noteq> None)
        \<and> (\<forall>t'. t' \<noteq> t \<longrightarrow> get_session b t' w' = get_session b t' w)"
    if n: "get_session a t w = None" and c: "connect a t w = (Inr (), a', w')"
  proof -
    from connect_sets_slot [OF c] have "get_session b t w' \<noteq> None" by (simp add: get_session_def)
    then have 1: "connect b t w' = (Inr (), b, w')" by (rule connect_noop)
    have 2: "get_session b t w' = get_session a' t w'" by (simp add: get_session_def)
    have 3: "\<exists>s. get_session b t w' = Some s \<and> session_bind s = engine a' \<and> engine a' \<noteq> None"
      using connect_binds_session [OF n c] by (simp add: get_session_def)
    have 4: "\<forall>t'. t' \<noteq> t \<longrightarrow> get_session b t' w' = get_session b t' w"
      using connect_other_tasks [of _ t a w] c by (simp add: get_session_def)
    from 1 2 3 4 show ?thesis by blast
  qed
  with same show ?thesis by blast
qed












theorem session_slot_shared_between_instances_witness:
  "get_session pg_service 0 fresh_db = None
   \<and> connect pg_service 0 fresh_db = (Inr (), pg_connected, db_connected)
   \<and> connect reporting_service 0 db_connected = (Inr (), reporting_service, db_connected)
   \<and> get_session reporting_service 0 db_connected
       = Some \<lparr>session_id = 1, session_bind = engine pg_connected\<rparr>
   \<and> engine reporting_service = None
   \<and> engine_url (the (engine pg_connected)) = url pg_service
   \<and> (1::nat) \<noteq> 0
   \<and> get_session reporting_service 1 db_connected = None"
  using session_slot_shared_between_instances [of pg_service 0 fresh_db reporting_service
      pg_connected db_connected]
    first_connect_eq
  by (simp add: fresh_db_def pg_connected_def db_connected_def connect_def get_session_def
      pg_service_def build_engine_def reporting_service_def)


subsection \<open>Storage backends\<close>

text \<open>
  C6: the connection of every remote backend is retried up to five attempts with sleeps of 1,
  2, 4 and 8 seconds, an exhausted retry raises and writes nothing, and on GCS and S3 an upload
  whose connection succeeds at the fifth attempt succeeds.  On SFTP it does not: the handshake
  succeeds at the fifth attempt and nothing is stored at the path (the awaited \<^verbatim>\<open>exists\<close>
  says so), yet \<^verbatim>\<open>upload_file_with_id\<close> returns \<open>False\<close> and writes nothing, because it
  tests the coroutine object of the unawaited \<^verbatim>\<open>self.exists(storage_path)\<close>, which is
  always true.
\<close>

theorem sftp_upload_after_reconnect_returns_False:
  "fst (fst (sftp_ensure_connection sftp_flaky)) = Inr ()
   \<and> map snd (snd (sftp_ensure_connection sftp_flaky)) = [1, 2, 4, 8]
   \<and> fst (sftp_exists sftp_test_service (get_storage_path test_id (Some ''txt'')) sftp_flaky)
       = Inr False
   \<and> fst (sftp_upload_file_with_id sftp_test_service test_id test_blob (Some ''txt'') sftp_flaky)
       = Inr False
   \<and> remote_files (snd (sftp_upload_file_with_id sftp_test_service test_id test_blob (Some ''txt'')
        sftp_flaky)) ''/uploads/2d2/821/2d282102fa671256327d4767ec23bc6b.txt'' = None"
  by code_simp


end
